theory Spec2Isabelle
  imports Main
begin

section \<open>JavaScript values read by the URL resolver\<close>

text \<open>
  The resolver \<^verbatim>\<open>src/utils/getUrlByRequestOptions.ts\<close> reads an option bag whose
  fields are optional strings, a port that is a number or a string, an agent and a
  pre-built \<^verbatim>\<open>URL\<close>. Strings are \<open>string\<close>; an optional field is an \<open>option\<close>
  (\<^verbatim>\<open>undefined\<close> and \<^verbatim>\<open>null\<close> are both \<open>None\<close>: the code tests them
  with truthiness or \<^verbatim>\<open>!= null\<close>, which do not tell them apart).

  A JavaScript number is modelled as an integer or \<^verbatim>\<open>NaN\<close>. \<open>Num n\<close> stands
  for the double \<open>n\<close>, which JavaScript has exactly for \<open>\<bar>n\<bar> \<le> 2 ^ 53\<close>; that
  covers every port. Fractions and infinities are outside the model.
\<close>

datatype number = Num int | NaN

datatype port_value = PortNumber number | PortString string

text \<open>Truthiness, as \<^verbatim>\<open>if (x)\<close> and \<^verbatim>\<open>x || y\<close> test it.\<close>

fun truthy_number :: "number \<Rightarrow> bool" where
  "truthy_number (Num n) = (n \<noteq> 0)"
| "truthy_number NaN = False"

fun truthy_string :: "string option \<Rightarrow> bool" where
  "truthy_string None = False"
| "truthy_string (Some s) = (s \<noteq> [])"

fun truthy_port :: "port_value option \<Rightarrow> bool" where
  "truthy_port None = False"
| "truthy_port (Some (PortNumber n)) = truthy_number n"
| "truthy_port (Some (PortString s)) = (s \<noteq> [])"

fun truthy_number_opt :: "number option \<Rightarrow> bool" where
  "truthy_number_opt None = False"
| "truthy_number_opt (Some n) = truthy_number n"

subsection \<open>Decimal digits\<close>

definition is_digit :: "char \<Rightarrow> bool" where
  "is_digit c = (c \<in> set ''0123456789'')"

definition digit_value :: "char \<Rightarrow> int" where
  "digit_value c = of_char c - 48"

definition decimal_value :: "string \<Rightarrow> int" where
  "decimal_value ds = foldl (\<lambda>n c. 10 * n + digit_value c) 0 ds"

definition digit_char :: "nat \<Rightarrow> char" where
  "digit_char d = ''0123456789'' ! d"

fun decimal_digits :: "nat \<Rightarrow> string" where
  "decimal_digits n =
     (if n < 10 then [digit_char n]
      else decimal_digits (n div 10) @ [digit_char (n mod 10)])"

declare decimal_digits.simps [simp del]

text \<open>
  \<^verbatim>\<open>`${port}`\<close>: the number as the template literal renders it. (JavaScript
  switches to exponent notation from \<open>10 ^ 21\<close> on, beyond the numbers modelled.)
\<close>

fun String_number :: "number \<Rightarrow> string" where
  "String_number (Num n) =
     (if n < 0 then ''-'' @ decimal_digits (nat (- n)) else decimal_digits (nat n))"
| "String_number NaN = ''NaN''"

text \<open>
  \<^verbatim>\<open>Number(x)\<close>. On a number it is the identity. On a string of decimal digits
  whose value is at most \<open>2 ^ 53\<close> it is that value, exactly. Every other
  string (signs, white space, hexadecimal, exponents, fractions, longer digit runs,
  text that is no number) is left to the parameter \<open>ToNumber\<close>, the platform's
  conversion, about which nothing is assumed.
\<close>

definition StringToNumber :: "(string \<Rightarrow> number) \<Rightarrow> string \<Rightarrow> number" where
  "StringToNumber ToNumber s =
     (if s \<noteq> [] \<and> list_all is_digit s \<and> decimal_value s \<le> 2 ^ 53
      then Num (decimal_value s) else ToNumber s)"

fun Number :: "(string \<Rightarrow> number) \<Rightarrow> port_value \<Rightarrow> number" where
  "Number ToNumber (PortNumber n) = n"
| "Number ToNumber (PortString s) = StringToNumber ToNumber s"

subsection \<open>The option bag\<close>

text \<open>
  \<^verbatim>\<open>ResolvedRequestOptions = RequestOptions & RequestSelf\<close>, with the fields the
  resolver reads. Of a \<^verbatim>\<open>URL\<close> it reads \<^verbatim>\<open>href\<close> and \<^verbatim>\<open>protocol\<close>; of an
  agent \<^verbatim>\<open>protocol\<close>, \<^verbatim>\<open>options.port\<close> and \<^verbatim>\<open>defaultPort\<close>. The
  \<^verbatim>\<open>agent\<close> option is an \<^verbatim>\<open>Agent\<close> or a boolean, and \<^verbatim>\<open>cert\<close> a string, a
  buffer or an array of them (a buffer and an array are truthy also when empty).

  The resolver tests \<^verbatim>\<open>options.agent instanceof Agent\<close> and then reads
  \<^verbatim>\<open>agent.options.port\<close>. Node's constructor gives every agent an
  \<^verbatim>\<open>options\<close> object, but \<^verbatim>\<open>instanceof\<close> does not ask for one, so the
  \<^verbatim>\<open>options\<close> of an agent are optional here: \<open>agent_options a = None\<close> is an
  agent that has none.
\<close>

record URL =
  href :: string
  url_protocol :: string

record AgentOptions =
  options_port :: "number option"

record Agent =
  agent_protocol :: "string option"
  agent_options :: "AgentOptions option"
  defaultPort :: "port_value option"

datatype agent_value = AgentInstance Agent | AgentBoolean bool

datatype cert_value = CertString string | CertBuffer string | CertArray "string list"

fun truthy_cert :: "cert_value option \<Rightarrow> bool" where
  "truthy_cert None = False"
| "truthy_cert (Some (CertString s)) = (s \<noteq> [])"
| "truthy_cert (Some (CertBuffer b)) = True"
| "truthy_cert (Some (CertArray xs)) = True"

record ResolvedRequestOptions =
  protocol :: "string option"
  host :: "string option"
  hostname :: "string option"
  port :: "port_value option"
  path :: "string option"
  auth :: "string option"
  agent :: "agent_value option"
  cert :: "cert_value option"
  uri :: "URL option"

definition DEFAULT_PATH :: string where "DEFAULT_PATH = ''/''"
definition DEFAULT_PROTOCOL :: string where "DEFAULT_PROTOCOL = ''http:''"
definition DEFAULT_HOST :: string where "DEFAULT_HOST = ''localhost''"
definition SSL_PORT :: number where "SSL_PORT = Num 443"

section \<open>String operations the resolver calls\<close>

definition includes_char :: "string \<Rightarrow> char \<Rightarrow> bool" where
  "includes_char s c = (c \<in> set s)"

definition startsWith :: "string \<Rightarrow> char \<Rightarrow> bool" where
  "startsWith s c = (case s of [] \<Rightarrow> False | x # _ \<Rightarrow> x = c)"

definition endsWith :: "string \<Rightarrow> char \<Rightarrow> bool" where
  "endsWith s c = (case rev s of [] \<Rightarrow> False | x # _ \<Rightarrow> x = c)"

text \<open>
  The regular expression \<^verbatim>\<open>/:(\d+)$/\<close>: a colon followed by one or more ASCII
  digits that run to the end of the string. \<open>match_port s\<close> is the pair of what stands
  before the match and the captured digits, \<open>None\<close> when there is no match. The
  digits matched are the longest run of digits at the end (no digit can stand before
  the colon of a match and after it), so the match is found from the end.
\<close>

definition match_port :: "string \<Rightarrow> (string \<times> string) option" where
  "match_port s =
     (let ds = takeWhile is_digit (rev s); before = dropWhile is_digit (rev s)
      in case before of
           [] \<Rightarrow> None
         | c # pre \<Rightarrow> if c = CHR '':'' \<and> ds \<noteq> [] then Some (rev pre, rev ds) else None)"

text \<open>\<^verbatim>\<open>s.split(':')\<close>: the pieces between the colons, at least one.\<close>

fun split_colon :: "string \<Rightarrow> string list" where
  "split_colon [] = [[]]"
| "split_colon (c # cs) =
     (if c = CHR '':'' then [] # split_colon cs
      else (case split_colon cs of p # ps \<Rightarrow> (c # p) # ps | [] \<Rightarrow> [[c]]))"

section \<open>Reading a property of a value that may be absent\<close>

text \<open>
  What the resolver can throw. \<^verbatim>\<open>new URL(s)\<close> throws a \<^verbatim>\<open>TypeError\<close>
  (\<^verbatim>\<open>ERR_INVALID_URL\<close>) for a string it cannot parse. Reading a property, or calling
  a method, of \<^verbatim>\<open>undefined\<close> or \<^verbatim>\<open>null\<close> throws a \<^verbatim>\<open>TypeError\<close> that names
  the property (\<^verbatim>\<open>Cannot read properties of undefined\<close>).
\<close>

datatype error = TypeError_ERR_INVALID_URL string | TypeError_undefined_property string

text \<open>
  The property reads and method calls of the resolver whose receiver is an optional
  value. Each takes the receiver as the option bag holds it and throws when it is
  absent; whether the resolver ever calls one on an absent receiver depends on the
  tests it makes before.
\<close>

definition String_match :: "string option \<Rightarrow> error + (string \<times> string) option" where
  \<comment> \<open>\<^verbatim>\<open>s.match(/:(\d+)$/)\<close>\<close>
  "String_match s =
     (case s of
        None \<Rightarrow> Inl (TypeError_undefined_property ''match'')
      | Some h \<Rightarrow> Inr (match_port h))"

definition String_replace :: "string option \<Rightarrow> error + string" where
  \<comment> \<open>\<^verbatim>\<open>s.replace(/:\d+$/, '')\<close>\<close>
  "String_replace s =
     (case s of
        None \<Rightarrow> Inl (TypeError_undefined_property ''replace'')
      | Some h \<Rightarrow> Inr (case match_port h of Some (pre, _) \<Rightarrow> pre | None \<Rightarrow> h))"

definition String_split :: "string option \<Rightarrow> error + string list" where
  \<comment> \<open>\<^verbatim>\<open>s.split(':')\<close>\<close>
  "String_split s =
     (case s of
        None \<Rightarrow> Inl (TypeError_undefined_property ''split'')
      | Some a \<Rightarrow> Inr (split_colon a))"

definition read_port :: "AgentOptions option \<Rightarrow> error + number option" where
  \<comment> \<open>\<^verbatim>\<open>x.port\<close>, for \<^verbatim>\<open>x = agent.options\<close>\<close>
  "read_port x =
     (case x of
        None \<Rightarrow> Inl (TypeError_undefined_property ''port'')
      | Some opts \<Rightarrow> Inr (options_port opts))"

definition read_href :: "URL option \<Rightarrow> error + string" where
  \<comment> \<open>\<^verbatim>\<open>x.href\<close>, for \<^verbatim>\<open>x = options.uri\<close>\<close>
  "read_href x =
     (case x of
        None \<Rightarrow> Inl (TypeError_undefined_property ''href'')
      | Some u \<Rightarrow> Inr (href u))"

section \<open>The resolver\<close>

text \<open>
  Each function of the resolver gives its value (\<open>Inr\<close>) or the error it throws
  (\<open>Inl\<close>); an error of a call is passed on by its caller, as an exception is.
\<close>

definition getAgent :: "ResolvedRequestOptions \<Rightarrow> Agent option" where
  "getAgent options =
     (case agent options of Some (AgentInstance a) \<Rightarrow> Some a | _ \<Rightarrow> None)"

text \<open>
  The digits that \<^verbatim>\<open>options.hostname.match(/:(\d+)$/)\<close> captures, when the test
  \<^verbatim>\<open>options.hostname != null\<close> passes and the hostname matches.
\<close>

definition extractedPort :: "ResolvedRequestOptions \<Rightarrow> error + string option" where
  "extractedPort options =
     (if hostname options \<noteq> None
      then (case String_match (hostname options) of
              Inl e \<Rightarrow> Inl e
            | Inr m \<Rightarrow> Inr (map_option snd m))
      else Inr None)"

definition getPortByRequestOptions ::
    "(string \<Rightarrow> number) \<Rightarrow> ResolvedRequestOptions \<Rightarrow> error + number option" where
  "getPortByRequestOptions ToNumber options =
     (if truthy_port (port options) then Inr (Some (Number ToNumber (the (port options))))
      else
        (case extractedPort options of
           Inl e \<Rightarrow> Inl e
         | Inr (Some ds) \<Rightarrow> Inr (Some (StringToNumber ToNumber ds))
         | Inr None \<Rightarrow>
            (case getAgent options of
               None \<Rightarrow> Inr None
             | Some a \<Rightarrow>
                 (case read_port (agent_options a) of
                    Inl e \<Rightarrow> Inl e
                  | Inr own \<Rightarrow>
                      if truthy_number_opt own then Inr (Some (the own))
                      else if truthy_port (defaultPort a)
                      then Inr (Some (Number ToNumber (the (defaultPort a))))
                      else Inr None))))"

text \<open>\<^verbatim>\<open>(agent as RequestOptions)?.protocol\<close>\<close>

definition agentProtocol :: "ResolvedRequestOptions \<Rightarrow> string option" where
  "agentProtocol options =
     (case getAgent options of Some a \<Rightarrow> agent_protocol a | None \<Rightarrow> None)"

definition getProtocolByRequestOptions ::
    "(string \<Rightarrow> number) \<Rightarrow> ResolvedRequestOptions \<Rightarrow> error + string" where
  "getProtocolByRequestOptions ToNumber options =
     (if truthy_string (protocol options) then Inr (the (protocol options))
      else
        if truthy_string (agentProtocol options) then Inr (the (agentProtocol options))
        else
          (case getPortByRequestOptions ToNumber options of
             Inl e \<Rightarrow> Inl e
           | Inr port' \<Rightarrow>
               let isSecureRequest = (truthy_cert (cert options) \<or> port' = Some SSL_PORT)
               in if isSecureRequest then Inr ''https:''
                  else (case uri options of
                          Some u \<Rightarrow>
                            if url_protocol u \<noteq> [] then Inr (url_protocol u)
                            else Inr DEFAULT_PROTOCOL
                        | None \<Rightarrow> Inr DEFAULT_PROTOCOL)))"

definition getHostByRequestOptions :: "ResolvedRequestOptions \<Rightarrow> error + string" where
  "getHostByRequestOptions options =
     (if hostname options \<noteq> None then String_replace (hostname options)
      else Inr (if truthy_string (host options) then the (host options) else DEFAULT_HOST))"

text \<open>
  \<^verbatim>\<open>const [username, password] = options.auth.split(':')\<close>: the first and the second
  piece; a piece the array does not have is \<^verbatim>\<open>undefined\<close>.
\<close>

record credentials =
  username :: "string option"
  password :: "string option"

definition getAuthByRequestOptions :: "ResolvedRequestOptions \<Rightarrow> error + credentials option" where
  "getAuthByRequestOptions options =
     (if truthy_string (auth options)
      then (case String_split (auth options) of
              Inl e \<Rightarrow> Inl e
            | Inr pieces \<Rightarrow>
                Inr (Some \<lparr>username = (case pieces of u # _ \<Rightarrow> Some u | [] \<Rightarrow> None),
                           password = (case pieces of _ # p # _ \<Rightarrow> Some p | _ \<Rightarrow> None)\<rparr>))
      else Inr None)"

definition isRawIPv6Address :: "string \<Rightarrow> bool" where
  "isRawIPv6Address h =
     (includes_char h (CHR '':'') \<and> \<not> startsWith h (CHR ''['') \<and> \<not> endsWith h (CHR '']''))"

definition getHostname :: "string \<Rightarrow> number option \<Rightarrow> string" where
  "getHostname h p =
     (let portString = (case p of Some n \<Rightarrow> '':'' @ String_number n | None \<Rightarrow> '''')
      in if isRawIPv6Address h then ''['' @ h @ '']'' @ portString
         else if p = None then h
         else h @ portString)"

text \<open>
  \<^verbatim>\<open>`${credentials.username}:${credentials.password}@`\<close>: the template literal
  renders \<^verbatim>\<open>undefined\<close> as that word.
\<close>

definition authString :: "credentials option \<Rightarrow> string" where
  "authString c =
     (case c of
        Some cr \<Rightarrow>
          (case username cr of Some u \<Rightarrow> u | None \<Rightarrow> ''undefined'') @ '':''
          @ (case password cr of Some p \<Rightarrow> p | None \<Rightarrow> ''undefined'') @ ''@''
      | None \<Rightarrow> '''')"

text \<open>
  \<^verbatim>\<open>new URL(s)\<close> is the platform's parser, not code of the repository: it is the
  parameter \<open>new_URL\<close>, which gives the \<^verbatim>\<open>URL\<close> or the error it throws. The
  resolver calls its own functions in the order written here, so the first that throws
  decides the error. (The source's local names \<^verbatim>\<open>protocol\<close>, \<^verbatim>\<open>host\<close>,
  \<^verbatim>\<open>port\<close>, \<^verbatim>\<open>hostname\<close>, \<^verbatim>\<open>path\<close> and \<^verbatim>\<open>credentials\<close> carry a
  prime here: unprimed they are the fields of the option bag.)
\<close>

definition getUrlByRequestOptions ::
    "(string \<Rightarrow> number) \<Rightarrow> (string \<Rightarrow> error + URL) \<Rightarrow> ResolvedRequestOptions \<Rightarrow> error + URL" where
  "getUrlByRequestOptions ToNumber new_URL options =
     (if uri options \<noteq> None
      then (case read_href (uri options) of Inl e \<Rightarrow> Inl e | Inr h \<Rightarrow> new_URL h)
      else
        (case getProtocolByRequestOptions ToNumber options of
           Inl e \<Rightarrow> Inl e
         | Inr protocol' \<Rightarrow>
        (case getHostByRequestOptions options of
           Inl e \<Rightarrow> Inl e
         | Inr host' \<Rightarrow>
        (case getPortByRequestOptions ToNumber options of
           Inl e \<Rightarrow> Inl e
         | Inr port' \<Rightarrow>
        let hostname' = getHostname host' port';
            path' = (if truthy_string (path options) then the (path options) else DEFAULT_PATH)
        in
        (case getAuthByRequestOptions options of
           Inl e \<Rightarrow> Inl e
         | Inr credentials' \<Rightarrow>
             new_URL (protocol' @ ''//'' @ authString credentials' @ hostname' @ path'))))))"

text \<open>The option bag \<^verbatim>\<open>{}\<close>: every field absent.\<close>

definition no_options :: ResolvedRequestOptions where
  "no_options =
     \<lparr>protocol = None, host = None, hostname = None, port = None, path = None,
      auth = None, agent = None, cert = None, uri = None\<rparr>"

section \<open>The request lifecycle controller\<close>

text \<open>
  Modelled from the spec: the lifecycle controller (\<^verbatim>\<open>NodeClientRequest\<close>) and the
  event dispatcher (\<^verbatim>\<open>AsyncEventEmitter\<close>) are not among the source files; of the
  controller only its tests are (\<^verbatim>\<open>NodeClientRequest.test.ts\<close>). The definitions of
  this section follow the data model (section 3), the dispatcher's contract (section
  4.2) and the controller's states and transitions (section 4.3) of the spec.
\<close>

type_synonym chunk = string

type_synonym header_mapping = "(string \<times> string) list"

text \<open>Modelled from the spec: the ResponseDescriptor of section 3.\<close>

record ResponseDescriptor =
  status :: int
  statusText :: "string option"
  headers :: header_mapping
  body :: "chunk list"

text \<open>Modelled from the spec: the InterceptedError of section 3.\<close>

datatype error_kind = DnsNotFound | ConnectionRefused | Other

record InterceptedError =
  kind :: error_kind
  syscall :: "string option"
  address :: "string option"
  error_port :: "int option"

text \<open>Modelled from the spec: the ResolutionOutcome of section 3.\<close>

datatype ResolutionOutcome = Mocked ResponseDescriptor | Passthrough

text \<open>Modelled from the spec: the controller's states (section 4.3).\<close>

datatype lifecycle_state =
  CREATED | WRITING | ENDED | INSPECTING | MOCK_RESPONDING | CONNECTING | RESPONDED | ERRORED

text \<open>
  Modelled from the spec: the events the caller of a request sees (section 6), and the
  real transport's interface: it is opened with the canonical URL, the method, the
  headers and the body chunks in order, and answers with a response or an error.
\<close>

datatype event = ResponseEvent ResponseDescriptor | ErrorEvent InterceptedError

record transport_call =
  call_url :: URL
  call_method :: string
  call_headers :: header_mapping
  call_body :: "chunk list"

datatype transport_result = TransportResponse ResponseDescriptor | TransportError InterceptedError

text \<open>
  Modelled from the spec: the lifecycle controller's state. \<open>buffered\<close> is the body
  written so far, \<open>outcome\<close> the ResolutionOutcome once one is recorded, \<open>emitted\<close>
  the events emitted to the caller, oldest first, and \<open>opened\<close> the calls made to the
  real transport, oldest first.
\<close>

record controller =
  lifecycle :: lifecycle_state
  request_method :: string
  request_url :: URL
  request_headers :: header_mapping
  buffered :: "chunk list"
  outcome :: "ResolutionOutcome option"
  emitted :: "event list"
  opened :: "transport_call list"

text \<open>Modelled from the spec: a controller as the request call creates it.\<close>

definition new_request :: "string \<Rightarrow> URL \<Rightarrow> header_mapping \<Rightarrow> controller" where
  "new_request m u hs =
     \<lparr>lifecycle = CREATED, request_method = m, request_url = u, request_headers = hs,
      buffered = [], outcome = None, emitted = [], opened = []\<rparr>"

text \<open>
  Modelled from the spec: \<^verbatim>\<open>write(chunk)\<close> is valid only before \<^verbatim>\<open>end\<close> and
  appends to the buffered body. (Of a write after \<^verbatim>\<open>end\<close> the spec says only that
  it is not valid; here it changes nothing.)
\<close>

definition request_write :: "chunk \<Rightarrow> controller \<Rightarrow> controller" where
  "request_write c k =
     (if lifecycle k = CREATED \<or> lifecycle k = WRITING
      then k\<lparr>buffered := buffered k @ [c], lifecycle := WRITING\<rparr>
      else k)"

text \<open>
  Modelled from the spec: the mock-setting operation records the ResponseDescriptor
  as the ResolutionOutcome exactly once (the first call wins) and has no effect
  outside the state INSPECTING.
\<close>

definition respondWith :: "ResponseDescriptor \<Rightarrow> controller \<Rightarrow> controller" where
  "respondWith r k =
     (if lifecycle k = INSPECTING \<and> outcome k = None
      then k\<lparr>outcome := Some (Mocked r)\<rparr>
      else k)"

text \<open>
  Modelled from the spec: an inspection listener gets a handle to the controller that
  is read-only but for the mock-setting operation, and its reaction may fail. So a
  listener is a function of the controller as it finds it, and its reaction the
  descriptors it calls the mock-setting operation with, in order, and whether it failed.
\<close>

record reaction =
  responds :: "ResponseDescriptor list"
  faulted :: bool

type_synonym listener = "controller \<Rightarrow> reaction"

definition react :: "listener \<Rightarrow> controller \<Rightarrow> controller" where
  "react l k = foldl (\<lambda>k' r. respondWith r k') k (responds (l k))"

text \<open>
  Modelled from the spec: the dispatcher's emission (section 4.2) invokes the listeners
  in registration order, one after the other, each seeing what the ones before it did;
  a listener that fails is recorded and the others still run. The result is the
  controller after the last listener and whether some listener failed.
\<close>

fun emit_request :: "listener list \<Rightarrow> controller \<Rightarrow> controller \<times> bool" where
  "emit_request [] k = (k, False)"
| "emit_request (l # ls) k =
     (case emit_request ls (react l k) of (k', failed) \<Rightarrow> (k', faulted (l k) \<or> failed))"

text \<open>
  Modelled from the spec: the mock path synthesizes the response from the descriptor,
  discards the buffered body and emits the response; no connection is attempted.
\<close>

definition mock_respond :: "ResponseDescriptor \<Rightarrow> controller \<Rightarrow> controller" where
  "mock_respond r k =
     (k\<lparr>lifecycle := MOCK_RESPONDING\<rparr>)
       \<lparr>buffered := [], emitted := emitted k @ [ResponseEvent r], lifecycle := RESPONDED\<rparr>"

text \<open>
  Modelled from the spec: the passthrough path opens the real transport with the
  resolved URL and the original headers, replays the buffered chunks in their order,
  and relays the transport's response or error unchanged.
\<close>

definition connect :: "(transport_call \<Rightarrow> transport_result) \<Rightarrow> controller \<Rightarrow> controller" where
  "connect transport k =
     (let call = \<lparr>call_url = request_url k, call_method = request_method k,
                  call_headers = request_headers k, call_body = buffered k\<rparr>;
          k' = k\<lparr>lifecycle := CONNECTING, opened := opened k @ [call]\<rparr>
      in case transport call of
           TransportResponse r \<Rightarrow> k'\<lparr>emitted := emitted k @ [ResponseEvent r], lifecycle := RESPONDED\<rparr>
         | TransportError e \<Rightarrow> k'\<lparr>emitted := emitted k @ [ErrorEvent e], lifecycle := ERRORED\<rparr>)"

text \<open>
  Modelled from the spec: \<^verbatim>\<open>end(finalChunk?)\<close> appends the final chunk if there is
  one, freezes the request and enters INSPECTING; \<open>inspecting\<close> is the controller at
  that moment.
\<close>

definition inspecting :: "chunk option \<Rightarrow> controller \<Rightarrow> controller" where
  "inspecting final k =
     k\<lparr>buffered := buffered k @ (case final of Some c \<Rightarrow> [c] | None \<Rightarrow> []),
       lifecycle := INSPECTING\<rparr>"

text \<open>
  Modelled from the spec: \<^verbatim>\<open>end\<close> then emits the inspection event and waits for
  every listener; after that a recorded mock is answered from, and without one the
  request goes to the real transport. A failed listener does not fail the request.
  Calling \<^verbatim>\<open>end\<close> again is a no-op.
\<close>

definition request_end ::
    "chunk option \<Rightarrow> listener list \<Rightarrow> (transport_call \<Rightarrow> transport_result) \<Rightarrow> controller \<Rightarrow> controller" where
  "request_end final listeners transport k =
     (if lifecycle k = CREATED \<or> lifecycle k = WRITING
      then (case emit_request listeners (inspecting final k) of
              (k', failed) \<Rightarrow>
                (case outcome k' of
                   Some (Mocked r) \<Rightarrow> mock_respond r k'
                 | _ \<Rightarrow> connect transport k'))
      else k)"

text \<open>
  Modelled from the spec: a request as its caller makes it before ending it: created,
  then written to chunk by chunk.
\<close>

definition request_with_body ::
    "string \<Rightarrow> URL \<Rightarrow> header_mapping \<Rightarrow> chunk list \<Rightarrow> controller" where
  "request_with_body m u hs ws = foldl (\<lambda>k c. request_write c k) (new_request m u hs) ws"

section \<open>Digits and numbers\<close>

text \<open>
  The two conversions of the model agree: a number from 0 to \<open>2 ^ 53\<close>, rendered as
  the template literal renders it, is a string of digits that \<^verbatim>\<open>Number\<close> reads back
  as that number.
\<close>

lemma digit_char_is_digit: "d < 10 \<Longrightarrow> is_digit (digit_char d)"
proof -
  assume "d < 10"
  then have "d \<in> {0, 1, 2, 3, 4, 5, 6, 7, 8, 9}" by auto
  then show ?thesis
    by (auto simp: is_digit_def digit_char_def)
qed

lemma digit_value_digit_char: "d < 10 \<Longrightarrow> digit_value (digit_char d) = int d"
proof -
  assume "d < 10"
  then have "d \<in> {0, 1, 2, 3, 4, 5, 6, 7, 8, 9}" by auto
  then show ?thesis
    by (auto simp: digit_value_def digit_char_def)
qed

lemma decimal_value_snoc: "decimal_value (ds @ [c]) = 10 * decimal_value ds + digit_value c"
  by (simp add: decimal_value_def)

lemma decimal_digits_are_digits: "list_all is_digit (decimal_digits n)"
  by (induction n rule: decimal_digits.induct)
     (subst decimal_digits.simps, simp add: digit_char_is_digit)

lemma decimal_digits_nonempty: "decimal_digits n \<noteq> []"
  by (subst decimal_digits.simps) simp

lemma decimal_value_decimal_digits: "decimal_value (decimal_digits n) = int n"
proof (induction n rule: decimal_digits.induct)
  case (1 n)
  show ?case
  proof (cases "n < 10")
    case True
    then show ?thesis
      by (subst decimal_digits.simps) (simp add: decimal_value_def digit_value_digit_char)
  next
    case False
    with 1 have "decimal_value (decimal_digits (n div 10)) = int (n div 10)"
      by simp
    with False show ?thesis
      by (subst decimal_digits.simps)
         (simp add: decimal_value_snoc digit_value_digit_char zdiv_int zmod_int)
  qed
qed

lemma Number_String_number:
  "0 \<le> n \<Longrightarrow> n \<le> 2 ^ 53 \<Longrightarrow> StringToNumber ToNumber (String_number (Num n)) = Num n"
  by (simp add: StringToNumber_def decimal_digits_nonempty decimal_digits_are_digits
      decimal_value_decimal_digits)

section \<open>What the regular expression matches\<close>

lemma not_digit_colon: "\<not> is_digit (CHR '':'')"
  by (simp add: is_digit_def)

lemma match_port_suffix:
  assumes "ds \<noteq> []" and "list_all is_digit ds"
  shows "match_port (pre @ '':'' @ ds) = Some (pre, ds)"
proof -
  have digits: "\<forall>c \<in> set (rev ds). is_digit c"
    using assms(2) by (simp add: list_all_iff)
  have rev_eq: "rev (pre @ '':'' @ ds) = rev ds @ CHR '':'' # rev pre"
    by simp
  have taken: "takeWhile is_digit (rev ds @ CHR '':'' # rev pre) = rev ds"
    using digits not_digit_colon by (subst takeWhile_append2) simp_all
  have dropped: "dropWhile is_digit (rev ds @ CHR '':'' # rev pre) = CHR '':'' # rev pre"
    using digits not_digit_colon by (subst dropWhile_append2) simp_all
  show ?thesis
    unfolding match_port_def rev_eq taken dropped using assms(1) by simp
qed

lemma match_port_shape:
  assumes "match_port s = Some (pre, ds)"
  shows "s = pre @ '':'' @ ds \<and> ds \<noteq> [] \<and> list_all is_digit ds"
proof -
  let ?t = "takeWhile is_digit (rev s)" and ?d = "dropWhile is_digit (rev s)"
  from assms obtain c rest where d: "?d = c # rest"
    by (auto simp: match_port_def Let_def split: list.splits)
  from assms d have c: "c = CHR '':''" and t: "?t \<noteq> []"
    and pre: "pre = rev rest" and ds: "ds = rev ?t"
    by (auto simp: match_port_def Let_def split: if_splits)
  have "rev s = ?t @ ?d" by simp
  then have "s = rev ?d @ rev ?t" by (metis rev_append rev_rev_ident)
  then have "s = pre @ '':'' @ ds" using d c pre ds by simp
  moreover have "list_all is_digit ds"
    using ds by (auto simp: list_all_iff dest: set_takeWhileD)
  ultimately show ?thesis using t ds by simp
qed

section \<open>Rendering the host name\<close>

text \<open>
  C3, as the spec states it: every host that contains a colon and is not already
  bracketed is rendered in brackets, followed by the port. The code does not bracket a
  host that has one bracket only: \<^verbatim>\<open>isRawIPv6Address\<close> wants it to neither start
  with \<^verbatim>\<open>[\<close> nor end with \<^verbatim>\<open>]\<close>. The host \<^verbatim>\<open>::1]\<close> contains a colon and is
  not bracketed; with the port 8080 it is rendered \<^verbatim>\<open>::1]:8080\<close>, with no bracket
  added.
\<close>

theorem getHostname_one_bracket_not_bracketed:
  "includes_char ''::1]'' (CHR '':'')
   \<and> \<not> (startsWith ''::1]'' (CHR ''['') \<and> endsWith ''::1]'' (CHR '']''))
   \<and> getHostname ''::1]'' (Some (Num 8080)) = ''::1]:8080''
   \<and> getHostname ''::1]'' (Some (Num 8080)) \<noteq> ''['' @ ''::1]'' @ '']'' @ '':8080''"
  by (simp add: getHostname_def isRawIPv6Address_def includes_char_def startsWith_def
      endsWith_def decimal_digits.simps digit_char_def)

text \<open>
  C3, amended: every host that contains a colon and neither starts with \<^verbatim>\<open>[\<close> nor
  ends with \<^verbatim>\<open>]\<close> is rendered, with any resolved port, as the host in brackets
  followed by a colon and the port; the host \<^verbatim>\<open>::1\<close> with the port 8080 is
  rendered \<^verbatim>\<open>[::1]:8080\<close>. A host that starts with \<^verbatim>\<open>[\<close> or ends with
  \<^verbatim>\<open>]\<close> is taken as bracketed already: it is followed by the colon and the port
  and gets no bracket.
\<close>

theorem getHostname_brackets_raw_IPv6:
  "(includes_char h (CHR '':'') \<longrightarrow> \<not> startsWith h (CHR ''['') \<longrightarrow> \<not> endsWith h (CHR '']'') \<longrightarrow>
      getHostname h (Some p) = ''['' @ h @ '']'' @ '':'' @ String_number p)
   \<and> (startsWith h (CHR ''['') \<or> endsWith h (CHR '']'') \<longrightarrow>
      getHostname h (Some p) = h @ '':'' @ String_number p)"
  by (auto simp: getHostname_def isRawIPv6Address_def)

text \<open>The hosts \<^verbatim>\<open>::1\<close> and \<^verbatim>\<open>[::1]\<close>, each with the port 8080.\<close>

theorem getHostname_brackets_raw_IPv6_witness:
  "includes_char ''::1'' (CHR '':'')
   \<and> \<not> startsWith ''::1'' (CHR ''['')
   \<and> \<not> endsWith ''::1'' (CHR '']'')
   \<and> getHostname ''::1'' (Some (Num 8080)) = ''[::1]:8080''
   \<and> startsWith ''[::1]'' (CHR ''['')
   \<and> getHostname ''[::1]'' (Some (Num 8080)) = ''[::1]:8080''"
proof -
  have c: "includes_char ''::1'' (CHR '':'')"
    by (simp add: includes_char_def)
  have s: "\<not> startsWith ''::1'' (CHR ''['')"
    by (simp add: startsWith_def)
  have e: "\<not> endsWith ''::1'' (CHR '']'')"
    by (simp add: endsWith_def)
  have b: "startsWith ''[::1]'' (CHR ''['')"
    by (simp add: startsWith_def)
  have n: "String_number (Num 8080) = ''8080''"
    by (simp add: decimal_digits.simps digit_char_def)
  have raw: "getHostname ''::1'' (Some (Num 8080)) = ''[::1]:8080''"
    using getHostname_brackets_raw_IPv6 [of "''::1''" "Num 8080"] c s e n by simp
  have bracketed: "getHostname ''[::1]'' (Some (Num 8080)) = ''[::1]:8080''"
    using getHostname_brackets_raw_IPv6 [of "''[::1]''" "Num 8080"] b n by simp
  from c s e b raw bracketed show ?thesis by blast
qed

section \<open>Precedence of the port\<close>


lemma extractedPort_suffix:
  assumes "hostname options = Some (pre @ '':'' @ ds)" and "ds \<noteq> []" and "list_all is_digit ds"
  shows "extractedPort options = Inr (Some ds)"
  using assms(1) match_port_suffix [OF assms(2) assms(3), of pre]
  by (simp add: extractedPort_def String_match_def)

lemma extractedPort_shape:
  assumes "extractedPort options = Inr (Some ds)"
  shows "\<exists>pre. hostname options = Some (pre @ '':'' @ ds) \<and> ds \<noteq> [] \<and> list_all is_digit ds"
proof -
  from assms obtain h pre where h: "hostname options = Some h" and m: "match_port h = Some (pre, ds)"
    by (auto simp: extractedPort_def String_match_def split: option.splits if_splits)
  from match_port_shape [OF m] h show ?thesis by blast
qed

lemma getPort_falsy:
  assumes "\<not> truthy_port (port options)"
  shows "getPortByRequestOptions ToNumber options =
     (case extractedPort options of
        Inl e \<Rightarrow> Inl e
      | Inr (Some ds) \<Rightarrow> Inr (Some (StringToNumber ToNumber ds))
      | Inr None \<Rightarrow>
         (case getAgent options of
            None \<Rightarrow> Inr None
          | Some a \<Rightarrow>
              (case read_port (agent_options a) of
                 Inl e \<Rightarrow> Inl e
               | Inr own \<Rightarrow>
                   if truthy_number_opt own then Inr (Some (the own))
                   else if truthy_port (defaultPort a)
                   then Inr (Some (Number ToNumber (the (defaultPort a))))
                   else Inr None)))"
  using assms by (simp add: getPortByRequestOptions_def)

text \<open>
  C4, as the spec states it: an explicit \<^verbatim>\<open>port\<close> field wins. The code tests
  \<^verbatim>\<open>if (options.port)\<close>, so an explicit port that is falsy does not win: with
  \<^verbatim>\<open>port: 0\<close> and \<^verbatim>\<open>hostname: 'example.com:8080'\<close> the resolved port is 8080,
  the one embedded in the hostname, not 0.
\<close>

theorem explicit_port_zero_does_not_win:
  "port (no_options\<lparr>port := Some (PortNumber (Num 0)), hostname := Some ''example.com:8080''\<rparr>)
     = Some (PortNumber (Num 0))
   \<and> getPortByRequestOptions (\<lambda>s. NaN)
       (no_options\<lparr>port := Some (PortNumber (Num 0)), hostname := Some ''example.com:8080''\<rparr>)
     = Inr (Some (Num 8080))"
  by (simp add: getPortByRequestOptions_def extractedPort_def String_match_def match_port_def
      is_digit_def StringToNumber_def decimal_value_def digit_value_def no_options_def)

text \<open>
  C4, amended: for every option bag without a pre-built URI (and with one as well), the
  port is resolved in this order. An explicit \<^verbatim>\<open>port\<close> that is truthy (a number
  other than 0 and \<^verbatim>\<open>NaN\<close>, or a string that is not empty) wins, as
  \<^verbatim>\<open>Number(port)\<close>. Otherwise the digits after the last colon of a \<^verbatim>\<open>hostname\<close>
  that ends in a colon and digits. Otherwise the agent's own port
  (\<^verbatim>\<open>agent.options.port\<close>) when it is truthy, then the agent's \<^verbatim>\<open>defaultPort\<close>
  when it is truthy. Otherwise the port is undefined: the resolver makes none up. An
  agent that has no \<^verbatim>\<open>options\<close> object makes the resolver throw a \<^verbatim>\<open>TypeError\<close>
  when it comes to the agent's own port.
\<close>

theorem port_precedence:
  "(port options = Some p \<longrightarrow> truthy_port (Some p) \<longrightarrow>
      getPortByRequestOptions ToNumber options = Inr (Some (Number ToNumber p)))
   \<and> (\<not> truthy_port (port options) \<longrightarrow>
        hostname options = Some (pre @ '':'' @ ds) \<longrightarrow> ds \<noteq> [] \<longrightarrow> list_all is_digit ds \<longrightarrow>
      getPortByRequestOptions ToNumber options = Inr (Some (StringToNumber ToNumber ds)))
   \<and> (\<not> truthy_port (port options) \<longrightarrow> extractedPort options = Inr None \<longrightarrow>
        agent options = Some (AgentInstance a) \<longrightarrow> agent_options a = Some ao \<longrightarrow>
        options_port ao = Some n \<longrightarrow> truthy_number n \<longrightarrow>
      getPortByRequestOptions ToNumber options = Inr (Some n))
   \<and> (\<not> truthy_port (port options) \<longrightarrow> extractedPort options = Inr None \<longrightarrow>
        agent options = Some (AgentInstance a) \<longrightarrow> agent_options a = Some ao \<longrightarrow>
        \<not> truthy_number_opt (options_port ao) \<longrightarrow>
        defaultPort a = Some d \<longrightarrow> truthy_port (Some d) \<longrightarrow>
      getPortByRequestOptions ToNumber options = Inr (Some (Number ToNumber d)))
   \<and> (\<not> truthy_port (port options) \<longrightarrow> extractedPort options = Inr None \<longrightarrow>
        agent options = Some (AgentInstance a) \<longrightarrow> agent_options a = Some ao \<longrightarrow>
        \<not> truthy_number_opt (options_port ao) \<longrightarrow>
        \<not> truthy_port (defaultPort a) \<longrightarrow>
      getPortByRequestOptions ToNumber options = Inr None)
   \<and> (\<not> truthy_port (port options) \<longrightarrow> extractedPort options = Inr None \<longrightarrow>
        getAgent options = None \<longrightarrow>
      getPortByRequestOptions ToNumber options = Inr None)
   \<and> (\<not> truthy_port (port options) \<longrightarrow> extractedPort options = Inr None \<longrightarrow>
        agent options = Some (AgentInstance a) \<longrightarrow> agent_options a = None \<longrightarrow>
      getPortByRequestOptions ToNumber options = Inl (TypeError_undefined_property ''port''))"
proof (intro conjI impI)
  assume "port options = Some p" and "truthy_port (Some p)"
  then show "getPortByRequestOptions ToNumber options = Inr (Some (Number ToNumber p))"
    by (simp add: getPortByRequestOptions_def)
next
  assume falsy: "\<not> truthy_port (port options)"
    and "hostname options = Some (pre @ '':'' @ ds)" and "ds \<noteq> []" and "list_all is_digit ds"
  then have "extractedPort options = Inr (Some ds)"
    by (rule_tac extractedPort_suffix)
  with falsy show "getPortByRequestOptions ToNumber options = Inr (Some (StringToNumber ToNumber ds))"
    by (simp add: getPort_falsy)
next
  assume "\<not> truthy_port (port options)" and "extractedPort options = Inr None"
    and "agent options = Some (AgentInstance a)" and "agent_options a = Some ao"
    and "options_port ao = Some n" and "truthy_number n"
  then show "getPortByRequestOptions ToNumber options = Inr (Some n)"
    by (simp add: getPort_falsy getAgent_def read_port_def)
next
  assume "\<not> truthy_port (port options)" and "extractedPort options = Inr None"
    and "agent options = Some (AgentInstance a)" and "agent_options a = Some ao"
    and "\<not> truthy_number_opt (options_port ao)"
    and "defaultPort a = Some d" and "truthy_port (Some d)"
  then show "getPortByRequestOptions ToNumber options = Inr (Some (Number ToNumber d))"
    by (simp add: getPort_falsy getAgent_def read_port_def)
next
  assume "\<not> truthy_port (port options)" and "extractedPort options = Inr None"
    and "agent options = Some (AgentInstance a)" and "agent_options a = Some ao"
    and "\<not> truthy_number_opt (options_port ao)"
    and "\<not> truthy_port (defaultPort a)"
  then show "getPortByRequestOptions ToNumber options = Inr None"
    by (simp add: getPort_falsy getAgent_def read_port_def)
next
  assume "\<not> truthy_port (port options)" and "extractedPort options = Inr None"
    and "getAgent options = None"
  then show "getPortByRequestOptions ToNumber options = Inr None"
    by (simp add: getPort_falsy)
next
  assume "\<not> truthy_port (port options)" and "extractedPort options = Inr None"
    and "agent options = Some (AgentInstance a)" and "agent_options a = None"
  then show "getPortByRequestOptions ToNumber options = Inl (TypeError_undefined_property ''port'')"
    by (simp add: getPort_falsy getAgent_def read_port_def)
qed

text \<open>The amended precedence at one option bag for each of its cases.\<close>

theorem port_precedence_witness:
  "getPortByRequestOptions (\<lambda>s. NaN)
      (no_options\<lparr>port := Some (PortString ''8080''), hostname := Some ''example.com:9''\<rparr>)
     = Inr (Some (Num 8080))
   \<and> getPortByRequestOptions (\<lambda>s. NaN) (no_options\<lparr>hostname := Some ''example.com:3000''\<rparr>)
     = Inr (Some (Num 3000))
   \<and> getPortByRequestOptions (\<lambda>s. NaN)
      (no_options\<lparr>agent := Some (AgentInstance
         \<lparr>agent_protocol = None, agent_options = Some \<lparr>options_port = Some (Num 8443)\<rparr>,
          defaultPort = Some (PortNumber (Num 443))\<rparr>)\<rparr>)
     = Inr (Some (Num 8443))
   \<and> getPortByRequestOptions (\<lambda>s. NaN)
      (no_options\<lparr>agent := Some (AgentInstance
         \<lparr>agent_protocol = None, agent_options = Some \<lparr>options_port = None\<rparr>,
          defaultPort = Some (PortNumber (Num 443))\<rparr>)\<rparr>)
     = Inr (Some (Num 443))
   \<and> getPortByRequestOptions (\<lambda>s. NaN)
      (no_options\<lparr>agent := Some (AgentInstance
         \<lparr>agent_protocol = None, agent_options = Some \<lparr>options_port = None\<rparr>,
          defaultPort = None\<rparr>)\<rparr>)
     = Inr None
   \<and> getPortByRequestOptions (\<lambda>s. NaN) no_options = Inr None
   \<and> getPortByRequestOptions (\<lambda>s. NaN)
      (no_options\<lparr>agent := Some (AgentInstance
         \<lparr>agent_protocol = None, agent_options = None,
          defaultPort = Some (PortNumber (Num 443))\<rparr>)\<rparr>)
     = Inl (TypeError_undefined_property ''port'')"
proof -
  let ?T = "\<lambda>s::string. NaN"
  let ?own = "\<lparr>agent_protocol = None, agent_options = Some \<lparr>options_port = Some (Num 8443)\<rparr>,
      defaultPort = Some (PortNumber (Num 443))\<rparr>"
  let ?dflt = "\<lparr>agent_protocol = None, agent_options = Some \<lparr>options_port = None\<rparr>,
      defaultPort = Some (PortNumber (Num 443))\<rparr>"
  let ?bare = "\<lparr>agent_protocol = None, agent_options = Some \<lparr>options_port = None\<rparr>,
      defaultPort = None\<rparr>"
  let ?lacking = "\<lparr>agent_protocol = None, agent_options = None,
      defaultPort = Some (PortNumber (Num 443))\<rparr>"
  have w1: "getPortByRequestOptions ?T
      (no_options\<lparr>port := Some (PortString ''8080''), hostname := Some ''example.com:9''\<rparr>)
     = Inr (Some (Num 8080))"
    using port_precedence [where ToNumber = ?T and p = "PortString ''8080''"
        and options = "no_options\<lparr>port := Some (PortString ''8080''), hostname := Some ''example.com:9''\<rparr>"]
    by (simp add: StringToNumber_def is_digit_def decimal_value_def digit_value_def)
  have w2: "getPortByRequestOptions ?T (no_options\<lparr>hostname := Some ''example.com:3000''\<rparr>)
     = Inr (Some (Num 3000))"
    using port_precedence [where ToNumber = ?T and pre = "''example.com''" and ds = "''3000''"
        and options = "no_options\<lparr>hostname := Some ''example.com:3000''\<rparr>"]
    by (simp add: no_options_def StringToNumber_def is_digit_def decimal_value_def digit_value_def)
  have w3: "getPortByRequestOptions ?T (no_options\<lparr>agent := Some (AgentInstance ?own)\<rparr>)
     = Inr (Some (Num 8443))"
    using port_precedence [where ToNumber = ?T and a = ?own and n = "Num 8443"
        and ao = "\<lparr>options_port = Some (Num 8443)\<rparr>"
        and options = "no_options\<lparr>agent := Some (AgentInstance ?own)\<rparr>"]
    by (simp add: no_options_def extractedPort_def)
  have w4: "getPortByRequestOptions ?T (no_options\<lparr>agent := Some (AgentInstance ?dflt)\<rparr>)
     = Inr (Some (Num 443))"
    using port_precedence [where ToNumber = ?T and a = ?dflt and d = "PortNumber (Num 443)"
        and ao = "\<lparr>options_port = None\<rparr>"
        and options = "no_options\<lparr>agent := Some (AgentInstance ?dflt)\<rparr>"]
    by (simp add: no_options_def extractedPort_def)
  have w5: "getPortByRequestOptions ?T (no_options\<lparr>agent := Some (AgentInstance ?bare)\<rparr>) = Inr None"
    using port_precedence [where ToNumber = ?T and a = ?bare
        and ao = "\<lparr>options_port = None\<rparr>"
        and options = "no_options\<lparr>agent := Some (AgentInstance ?bare)\<rparr>"]
    by (simp add: no_options_def extractedPort_def)
  have w6: "getPortByRequestOptions ?T no_options = Inr None"
    using port_precedence [where ToNumber = ?T and options = no_options]
    by (simp add: no_options_def extractedPort_def getAgent_def)
  have w7: "getPortByRequestOptions ?T (no_options\<lparr>agent := Some (AgentInstance ?lacking)\<rparr>)
     = Inl (TypeError_undefined_property ''port'')"
    using port_precedence [where ToNumber = ?T and a = ?lacking
        and options = "no_options\<lparr>agent := Some (AgentInstance ?lacking)\<rparr>"]
    by (simp add: no_options_def extractedPort_def)
  from w1 w2 w3 w4 w5 w6 w7 show ?thesis by blast
qed

section \<open>A port at the end of the hostname\<close>


text \<open>
  C10: when no explicit port is given (the \<^verbatim>\<open>port\<close> field is absent, or falsy) and the
  \<^verbatim>\<open>hostname\<close> ends in a colon followed by one or more digits, the resolved port is
  \<^verbatim>\<open>Number\<close> of those digits (their decimal value, when it is at most \<open>2 ^ 53\<close>)
  and the resolved host is what stands before that colon. The digits of an unbracketed
  IPv6 literal are taken the same way: the hostname \<^verbatim>\<open>::1\<close> gives the host \<^verbatim>\<open>:\<close>
  and the port 1.
\<close>

theorem hostname_port_suffix_read_as_port:
  assumes "\<not> truthy_port (port options)"
    and "hostname options = Some (pre @ '':'' @ ds)"
    and "ds \<noteq> []"
    and "list_all is_digit ds"
  shows "getPortByRequestOptions ToNumber options = Inr (Some (StringToNumber ToNumber ds))
     \<and> (decimal_value ds \<le> 2 ^ 53 \<longrightarrow>
          getPortByRequestOptions ToNumber options = Inr (Some (Num (decimal_value ds))))
     \<and> getHostByRequestOptions options = Inr pre"
proof -
  have m: "match_port (pre @ '':'' @ ds) = Some (pre, ds)"
    using assms(3,4) by (rule match_port_suffix)
  have "extractedPort options = Inr (Some ds)"
    using assms(2) m by (simp add: extractedPort_def String_match_def)
  then have p: "getPortByRequestOptions ToNumber options = Inr (Some (StringToNumber ToNumber ds))"
    using assms(1) by (simp add: getPort_falsy)
  have n: "decimal_value ds \<le> 2 ^ 53 \<Longrightarrow> StringToNumber ToNumber ds = Num (decimal_value ds)"
    using assms(3,4) by (simp add: StringToNumber_def)
  have h: "getHostByRequestOptions options = Inr pre"
    using assms(2) m by (simp add: getHostByRequestOptions_def String_replace_def)
  from p n h show ?thesis by simp
qed

text \<open>The hostname \<^verbatim>\<open>::1\<close>, with no port given.\<close>

theorem hostname_port_suffix_read_as_port_witness:
  "\<not> truthy_port (port (no_options\<lparr>hostname := Some ''::1''\<rparr>))
   \<and> hostname (no_options\<lparr>hostname := Some ''::1''\<rparr>) = Some ''::1''
   \<and> getPortByRequestOptions (\<lambda>s. NaN) (no_options\<lparr>hostname := Some ''::1''\<rparr>) = Inr (Some (Num 1))
   \<and> getHostByRequestOptions (no_options\<lparr>hostname := Some ''::1''\<rparr>) = Inr '':''"
proof -
  let ?o = "no_options\<lparr>hostname := Some ''::1''\<rparr>"
  have a: "\<not> truthy_port (port ?o)"
    by (simp add: no_options_def)
  have b: "hostname ?o = Some ('':'' @ '':'' @ ''1'')"
    by simp
  have c: "''1'' \<noteq> []" and d: "list_all is_digit ''1''"
    by (simp_all add: is_digit_def)
  have v: "decimal_value ''1'' = 1"
    by (simp add: decimal_value_def digit_value_def)
  from hostname_port_suffix_read_as_port [OF a b c d, of "\<lambda>s. NaN"] a v
  show ?thesis by (simp add: StringToNumber_def is_digit_def)
qed

section \<open>Precedence of the protocol\<close>

lemma agentProtocol_agent:
  "agent options = Some (AgentInstance a) \<Longrightarrow> agentProtocol options = agent_protocol a"
  by (simp add: agentProtocol_def getAgent_def)

lemma getProtocol_after_port:
  assumes "\<not> truthy_string (protocol options)" and "\<not> truthy_string (agentProtocol options)"
  shows "getProtocolByRequestOptions ToNumber options =
     (case getPortByRequestOptions ToNumber options of
        Inl e \<Rightarrow> Inl e
      | Inr n \<Rightarrow>
          if truthy_cert (cert options) \<or> n = Some (Num 443) then Inr ''https:''
          else (case uri options of
                  Some u \<Rightarrow> if url_protocol u \<noteq> [] then Inr (url_protocol u) else Inr ''http:''
                | None \<Rightarrow> Inr ''http:''))"
  using assms
  by (simp add: getProtocolByRequestOptions_def SSL_PORT_def DEFAULT_PROTOCOL_def Let_def
      split: sum.splits option.splits)

text \<open>
  C5, as the spec states it: an explicit \<^verbatim>\<open>protocol\<close> field wins. The code tests
  \<^verbatim>\<open>if (options.protocol)\<close>, so an explicit protocol that is the empty string does
  not win: the option bag \<^verbatim>\<open>{ protocol: '' }\<close> resolves to the default
  \<^verbatim>\<open>http:\<close>.
\<close>

theorem explicit_empty_protocol_does_not_win:
  "protocol (no_options\<lparr>protocol := Some ''''\<rparr>) = Some ''''
   \<and> getProtocolByRequestOptions (\<lambda>s. NaN) (no_options\<lparr>protocol := Some ''''\<rparr>) = Inr ''http:''"
  by (simp add: getProtocolByRequestOptions_def agentProtocol_def getAgent_def
      getPortByRequestOptions_def extractedPort_def no_options_def SSL_PORT_def
      DEFAULT_PROTOCOL_def)

text \<open>
  C5, amended: for every option bag without a pre-built URI (and with one as well), the
  protocol is resolved in this order. An explicit \<^verbatim>\<open>protocol\<close> field that is not
  empty wins. Otherwise the protocol of the agent, when the \<^verbatim>\<open>agent\<close> option is an
  agent whose protocol is not empty. Otherwise \<^verbatim>\<open>https:\<close> when the \<^verbatim>\<open>cert\<close>
  option is truthy or the resolved port is the number 443. Otherwise the protocol of the
  pre-built URI, when there is one and its protocol is not empty. Otherwise
  \<^verbatim>\<open>http:\<close>. From the third step on the port is resolved first, and an error
  thrown there is the outcome.
\<close>

theorem protocol_precedence:
  "(protocol options = Some p \<longrightarrow> p \<noteq> [] \<longrightarrow>
      getProtocolByRequestOptions ToNumber options = Inr p)
   \<and> (\<not> truthy_string (protocol options) \<longrightarrow>
        agent options = Some (AgentInstance a) \<longrightarrow> agent_protocol a = Some q \<longrightarrow> q \<noteq> [] \<longrightarrow>
      getProtocolByRequestOptions ToNumber options = Inr q)
   \<and> (\<not> truthy_string (protocol options) \<longrightarrow> \<not> truthy_string (agentProtocol options) \<longrightarrow>
        getPortByRequestOptions ToNumber options = Inr n \<longrightarrow>
        truthy_cert (cert options) \<or> n = Some (Num 443) \<longrightarrow>
      getProtocolByRequestOptions ToNumber options = Inr ''https:'')
   \<and> (\<not> truthy_string (protocol options) \<longrightarrow> \<not> truthy_string (agentProtocol options) \<longrightarrow>
        getPortByRequestOptions ToNumber options = Inr n \<longrightarrow>
        \<not> truthy_cert (cert options) \<longrightarrow> n \<noteq> Some (Num 443) \<longrightarrow>
        uri options = Some u \<longrightarrow> url_protocol u \<noteq> [] \<longrightarrow>
      getProtocolByRequestOptions ToNumber options = Inr (url_protocol u))
   \<and> (\<not> truthy_string (protocol options) \<longrightarrow> \<not> truthy_string (agentProtocol options) \<longrightarrow>
        getPortByRequestOptions ToNumber options = Inr n \<longrightarrow>
        \<not> truthy_cert (cert options) \<longrightarrow> n \<noteq> Some (Num 443) \<longrightarrow>
        uri options = None \<or> (\<exists>v. uri options = Some v \<and> url_protocol v = []) \<longrightarrow>
      getProtocolByRequestOptions ToNumber options = Inr ''http:'')
   \<and> (\<not> truthy_string (protocol options) \<longrightarrow> \<not> truthy_string (agentProtocol options) \<longrightarrow>
        getPortByRequestOptions ToNumber options = Inl e \<longrightarrow>
      getProtocolByRequestOptions ToNumber options = Inl e)"
proof (intro conjI impI)
  assume "protocol options = Some p" and "p \<noteq> []"
  then show "getProtocolByRequestOptions ToNumber options = Inr p"
    by (simp add: getProtocolByRequestOptions_def)
next
  assume "\<not> truthy_string (protocol options)"
    and a: "agent options = Some (AgentInstance a)" and "agent_protocol a = Some q" and "q \<noteq> []"
  then show "getProtocolByRequestOptions ToNumber options = Inr q"
    by (simp add: getProtocolByRequestOptions_def agentProtocol_agent [OF a])
next
  assume "\<not> truthy_string (protocol options)" and "\<not> truthy_string (agentProtocol options)"
    and "getPortByRequestOptions ToNumber options = Inr n"
    and "truthy_cert (cert options) \<or> n = Some (Num 443)"
  then show "getProtocolByRequestOptions ToNumber options = Inr ''https:''"
    by (auto simp: getProtocol_after_port)
next
  assume "\<not> truthy_string (protocol options)" and "\<not> truthy_string (agentProtocol options)"
    and "getPortByRequestOptions ToNumber options = Inr n"
    and "\<not> truthy_cert (cert options)" and "n \<noteq> Some (Num 443)"
    and "uri options = Some u" and "url_protocol u \<noteq> []"
  then show "getProtocolByRequestOptions ToNumber options = Inr (url_protocol u)"
    by (simp add: getProtocol_after_port)
next
  assume "\<not> truthy_string (protocol options)" and "\<not> truthy_string (agentProtocol options)"
    and "getPortByRequestOptions ToNumber options = Inr n"
    and "\<not> truthy_cert (cert options)" and "n \<noteq> Some (Num 443)"
    and "uri options = None \<or> (\<exists>v. uri options = Some v \<and> url_protocol v = [])"
  then show "getProtocolByRequestOptions ToNumber options = Inr ''http:''"
    by (auto simp: getProtocol_after_port)
next
  assume "\<not> truthy_string (protocol options)" and "\<not> truthy_string (agentProtocol options)"
    and "getPortByRequestOptions ToNumber options = Inl e"
  then show "getProtocolByRequestOptions ToNumber options = Inl e"
    by (simp add: getProtocol_after_port)
qed

text \<open>The amended precedence at one option bag for each of its cases.\<close>

theorem protocol_precedence_witness:
  "getProtocolByRequestOptions (\<lambda>s. NaN)
      (no_options\<lparr>protocol := Some ''ftp:'', port := Some (PortNumber (Num 443))\<rparr>) = Inr ''ftp:''
   \<and> getProtocolByRequestOptions (\<lambda>s. NaN)
      (no_options\<lparr>agent := Some (AgentInstance
         \<lparr>agent_protocol = Some ''https:'', agent_options = Some \<lparr>options_port = None\<rparr>,
          defaultPort = None\<rparr>)\<rparr>)
     = Inr ''https:''
   \<and> getProtocolByRequestOptions (\<lambda>s. NaN)
      (no_options\<lparr>port := Some (PortString ''443'')\<rparr>) = Inr ''https:''
   \<and> getProtocolByRequestOptions (\<lambda>s. NaN)
      (no_options\<lparr>uri := Some \<lparr>href = ''ws://example.com/'', url_protocol = ''ws:''\<rparr>\<rparr>) = Inr ''ws:''
   \<and> getProtocolByRequestOptions (\<lambda>s. NaN) no_options = Inr ''http:''
   \<and> getProtocolByRequestOptions (\<lambda>s. NaN)
      (no_options\<lparr>cert := Some (CertString ''pem''), agent := Some (AgentInstance
         \<lparr>agent_protocol = None, agent_options = None, defaultPort = None\<rparr>)\<rparr>)
     = Inl (TypeError_undefined_property ''port'')"
proof -
  let ?T = "\<lambda>s::string. NaN"
  let ?tls = "\<lparr>agent_protocol = Some ''https:'', agent_options = Some \<lparr>options_port = None\<rparr>,
      defaultPort = None\<rparr>"
  let ?lacking = "\<lparr>agent_protocol = None, agent_options = None, defaultPort = None\<rparr>"
  let ?ws = "\<lparr>href = ''ws://example.com/'', url_protocol = ''ws:''\<rparr>"
  have port_443: "getPortByRequestOptions ?T (no_options\<lparr>port := Some (PortString ''443'')\<rparr>)
      = Inr (Some (Num 443))"
    by (simp add: getPortByRequestOptions_def StringToNumber_def is_digit_def decimal_value_def
        digit_value_def)
  have port_none: "getPortByRequestOptions ?T (no_options\<lparr>uri := Some ?ws\<rparr>) = Inr None"
      "getPortByRequestOptions ?T no_options = Inr None"
    by (simp_all add: getPortByRequestOptions_def extractedPort_def getAgent_def no_options_def)
  have port_throws: "getPortByRequestOptions ?T
      (no_options\<lparr>cert := Some (CertString ''pem''), agent := Some (AgentInstance ?lacking)\<rparr>)
      = Inl (TypeError_undefined_property ''port'')"
    by (simp add: getPortByRequestOptions_def extractedPort_def getAgent_def read_port_def
        no_options_def)
  have w1: "getProtocolByRequestOptions ?T
      (no_options\<lparr>protocol := Some ''ftp:'', port := Some (PortNumber (Num 443))\<rparr>) = Inr ''ftp:''"
    using protocol_precedence [where ToNumber = ?T and p = "''ftp:''"
        and options = "no_options\<lparr>protocol := Some ''ftp:'', port := Some (PortNumber (Num 443))\<rparr>"]
    by simp
  have w2: "getProtocolByRequestOptions ?T (no_options\<lparr>agent := Some (AgentInstance ?tls)\<rparr>)
      = Inr ''https:''"
    using protocol_precedence [where ToNumber = ?T and a = ?tls and q = "''https:''"
        and options = "no_options\<lparr>agent := Some (AgentInstance ?tls)\<rparr>"]
    by (simp add: no_options_def)
  have w3: "getProtocolByRequestOptions ?T (no_options\<lparr>port := Some (PortString ''443'')\<rparr>)
      = Inr ''https:''"
    using protocol_precedence [where ToNumber = ?T and n = "Some (Num 443)"
        and options = "no_options\<lparr>port := Some (PortString ''443'')\<rparr>"] port_443
    by (simp add: no_options_def agentProtocol_def getAgent_def)
  have w4: "getProtocolByRequestOptions ?T (no_options\<lparr>uri := Some ?ws\<rparr>) = Inr ''ws:''"
    using protocol_precedence [where ToNumber = ?T and u = ?ws and n = None
        and options = "no_options\<lparr>uri := Some ?ws\<rparr>"] port_none(1)
    by (simp add: no_options_def agentProtocol_def getAgent_def)
  have w5: "getProtocolByRequestOptions ?T no_options = Inr ''http:''"
    using protocol_precedence [where ToNumber = ?T and n = None and options = no_options]
      port_none(2)
    by (simp add: no_options_def agentProtocol_def getAgent_def)
  have w6: "getProtocolByRequestOptions ?T
      (no_options\<lparr>cert := Some (CertString ''pem''), agent := Some (AgentInstance ?lacking)\<rparr>)
      = Inl (TypeError_undefined_property ''port'')"
    using protocol_precedence [where ToNumber = ?T and e = "TypeError_undefined_property ''port''"
        and options = "no_options\<lparr>cert := Some (CertString ''pem''),
          agent := Some (AgentInstance ?lacking)\<rparr>"] port_throws
    by (simp add: no_options_def agentProtocol_def getAgent_def)
  from w1 w2 w3 w4 w5 w6 show ?thesis by blast
qed

section \<open>The resolved URL\<close>

text \<open>
  C2: when the option bag has a pre-built \<^verbatim>\<open>uri\<close>, the resolver returns
  \<^verbatim>\<open>new URL(options.uri.href)\<close> whatever the other fields hold: two option bags
  with the same \<^verbatim>\<open>uri\<close> resolve alike, and where the platform's constructor reads
  the URI's href back as that URI (as it does for every \<^verbatim>\<open>URL\<close> it built), the
  result is that URI.
\<close>

theorem prebuilt_uri_returned:
  assumes "uri options = Some u"
  shows "getUrlByRequestOptions ToNumber new_URL options = new_URL (href u)
     \<and> (new_URL (href u) = Inr u \<longrightarrow> getUrlByRequestOptions ToNumber new_URL options = Inr u)
     \<and> (uri options' = Some u \<longrightarrow>
          getUrlByRequestOptions ToNumber' new_URL options'
            = getUrlByRequestOptions ToNumber new_URL options)"
  using assms by (simp add: getUrlByRequestOptions_def read_href_def)

text \<open>
  An option bag whose other fields all name another target; the constructor here reads
  the one href back.
\<close>

theorem prebuilt_uri_returned_witness:
  "uri \<lparr>protocol = Some ''http:'', host = Some ''other.test'', hostname = Some ''other.test:81'',
        port = Some (PortNumber (Num 8080)), path = Some ''/elsewhere'', auth = Some ''user:pw'',
        agent = Some (AgentBoolean False), cert = Some (CertString ''pem''),
        uri = Some \<lparr>href = ''https://example.com/a?b=1'', url_protocol = ''https:''\<rparr>\<rparr>
     = Some \<lparr>href = ''https://example.com/a?b=1'', url_protocol = ''https:''\<rparr>
   \<and> getUrlByRequestOptions (\<lambda>s. NaN)
       (\<lambda>s. if s = ''https://example.com/a?b=1''
            then Inr \<lparr>href = ''https://example.com/a?b=1'', url_protocol = ''https:''\<rparr>
            else Inl (TypeError_ERR_INVALID_URL s))
       \<lparr>protocol = Some ''http:'', host = Some ''other.test'', hostname = Some ''other.test:81'',
        port = Some (PortNumber (Num 8080)), path = Some ''/elsewhere'', auth = Some ''user:pw'',
        agent = Some (AgentBoolean False), cert = Some (CertString ''pem''),
        uri = Some \<lparr>href = ''https://example.com/a?b=1'', url_protocol = ''https:''\<rparr>\<rparr>
     = Inr \<lparr>href = ''https://example.com/a?b=1'', url_protocol = ''https:''\<rparr>"
proof -
  let ?u = "\<lparr>href = ''https://example.com/a?b=1'', url_protocol = ''https:''\<rparr>"
  let ?o = "\<lparr>protocol = Some ''http:'', host = Some ''other.test'', hostname = Some ''other.test:81'',
        port = Some (PortNumber (Num 8080)), path = Some ''/elsewhere'', auth = Some ''user:pw'',
        agent = Some (AgentBoolean False), cert = Some (CertString ''pem''),
        uri = Some ?u\<rparr>"
  let ?new = "\<lambda>s. if s = ''https://example.com/a?b=1'' then Inr ?u
            else Inl (TypeError_ERR_INVALID_URL s)"
  have given: "uri ?o = Some ?u"
    by simp
  have readback: "?new (href ?u) = Inr ?u"
    by simp
  from prebuilt_uri_returned [OF given, of "\<lambda>s. NaN" ?new] readback
  have "getUrlByRequestOptions (\<lambda>s. NaN) ?new ?o = Inr ?u"
    by blast
  with given show ?thesis by blast
qed

subsection \<open>Where the resolver can fail\<close>








section \<open>The mock-setting operation\<close>

lemma respondWith_settled: "outcome k \<noteq> None \<Longrightarrow> respondWith r k = k"
  by (simp add: respondWith_def)

lemma respondWith_outside: "lifecycle k \<noteq> INSPECTING \<Longrightarrow> respondWith r k = k"
  by (simp add: respondWith_def)

lemma respondWith_first:
  "lifecycle k = INSPECTING \<Longrightarrow> outcome k = None \<Longrightarrow>
   respondWith r k = k\<lparr>outcome := Some (Mocked r)\<rparr>"
  by (simp add: respondWith_def)

lemma respondWith_many_settled:
  "outcome k \<noteq> None \<Longrightarrow> foldl (\<lambda>k' r. respondWith r k') k rs = k"
  by (induction rs) (simp_all add: respondWith_settled)

lemma respondWith_many_outside:
  "lifecycle k \<noteq> INSPECTING \<Longrightarrow> foldl (\<lambda>k' r. respondWith r k') k rs = k"
  by (induction rs) (simp_all add: respondWith_outside)

text \<open>
  C9: in the state INSPECTING with no outcome recorded yet, the first call of the
  mock-setting operation records its descriptor as the outcome, and whatever calls
  follow it, with whatever descriptors, leave the controller as the first call left it;
  a call in any other state leaves the controller as it was.
\<close>

theorem respondWith_first_call_wins:
  "(lifecycle k = INSPECTING \<longrightarrow> outcome k = None \<longrightarrow>
      outcome (respondWith r1 k) = Some (Mocked r1)
      \<and> respondWith r2 (respondWith r1 k) = respondWith r1 k
      \<and> foldl (\<lambda>k' r. respondWith r k') (respondWith r1 k) rs = respondWith r1 k)
   \<and> (lifecycle k \<noteq> INSPECTING \<longrightarrow>
        respondWith r k = k \<and> foldl (\<lambda>k' r. respondWith r k') k rs = k)"
proof (intro conjI impI)
  assume i: "lifecycle k = INSPECTING" and n: "outcome k = None"
  then show first: "outcome (respondWith r1 k) = Some (Mocked r1)"
    by (simp add: respondWith_first)
  then have settled: "outcome (respondWith r1 k) \<noteq> None"
    by simp
  from settled show "respondWith r2 (respondWith r1 k) = respondWith r1 k"
    by (rule respondWith_settled)
  from settled show "foldl (\<lambda>k' r. respondWith r k') (respondWith r1 k) rs = respondWith r1 k"
    by (rule respondWith_many_settled)
next
  assume o: "lifecycle k \<noteq> INSPECTING"
  then show "respondWith r k = k"
    by (rule respondWith_outside)
  from o show "foldl (\<lambda>k' r. respondWith r k') k rs = k"
    by (rule respondWith_many_outside)
qed

text \<open>
  A request under inspection answered with 301 and then with 200 keeps the 301; a
  request that was just created takes no answer.
\<close>

theorem respondWith_first_call_wins_witness:
  "outcome (respondWith \<lparr>status = 200, statusText = None, headers = [], body = [''second'']\<rparr>
      (respondWith \<lparr>status = 301, statusText = None, headers = [], body = [''first'']\<rparr>
        (inspecting None (new_request ''GET'' \<lparr>href = ''http://any.thing/'', url_protocol = ''http:''\<rparr> []))))
     = Some (Mocked \<lparr>status = 301, statusText = None, headers = [], body = [''first'']\<rparr>)
   \<and> respondWith \<lparr>status = 301, statusText = None, headers = [], body = [''first'']\<rparr>
      (new_request ''GET'' \<lparr>href = ''http://any.thing/'', url_protocol = ''http:''\<rparr> [])
     = new_request ''GET'' \<lparr>href = ''http://any.thing/'', url_protocol = ''http:''\<rparr> []"
proof -
  let ?k = "new_request ''GET'' \<lparr>href = ''http://any.thing/'', url_protocol = ''http:''\<rparr> []"
  let ?r1 = "\<lparr>status = 301, statusText = None, headers = [], body = [''first'']\<rparr>"
  let ?r2 = "\<lparr>status = 200, statusText = None, headers = [], body = [''second'']\<rparr>"
  have i: "lifecycle (inspecting None ?k) = INSPECTING" and n: "outcome (inspecting None ?k) = None"
    by (simp_all add: inspecting_def new_request_def)
  have c: "lifecycle ?k \<noteq> INSPECTING"
    by (simp add: new_request_def)
  from respondWith_first_call_wins [of "inspecting None ?k" ?r1 ?r2 "[]"] i n
  have "outcome (respondWith ?r2 (respondWith ?r1 (inspecting None ?k))) = Some (Mocked ?r1)"
    by simp
  moreover from respondWith_first_call_wins [of ?k ?r1 ?r2 "[]" ?r1] c
  have "respondWith ?r1 ?k = ?k"
    by simp
  ultimately show ?thesis by blast
qed

section \<open>The dispatcher\<close>

lemma react_settled: "outcome k \<noteq> None \<Longrightarrow> react l k = k"
  by (simp add: react_def respondWith_many_settled)

lemma react_silent: "responds (l k) = [] \<Longrightarrow> react l k = k"
  by (simp add: react_def)

lemma react_first:
  assumes "lifecycle k = INSPECTING" and "outcome k = None" and "responds (l k) = r # rs"
  shows "react l k = k\<lparr>outcome := Some (Mocked r)\<rparr>"
proof -
  have "react l k = foldl (\<lambda>k' r. respondWith r k') (respondWith r k) rs"
    using assms(3) by (simp add: react_def)
  also have "\<dots> = respondWith r k"
    using assms(1,2) by (intro respondWith_many_settled) (simp add: respondWith_first)
  finally show ?thesis
    using assms(1,2) by (simp add: respondWith_first)
qed

lemma fst_emit_request_Cons:
  "fst (emit_request (l # ls) k) = fst (emit_request ls (react l k))"
  by (cases "emit_request ls (react l k)") simp

lemma emit_request_settled: "outcome k \<noteq> None \<Longrightarrow> fst (emit_request ls k) = k"
  by (induction ls) (simp_all add: fst_emit_request_Cons react_settled del: emit_request.simps(2))

lemma emit_request_silent:
  "\<forall>l \<in> set ls. responds (l k) = [] \<Longrightarrow> fst (emit_request ls k) = k"
  by (induction ls) (simp_all add: fst_emit_request_Cons react_silent del: emit_request.simps(2))

lemma emit_request_append:
  "fst (emit_request (ls @ ls') k) = fst (emit_request ls' (fst (emit_request ls k)))"
  by (induction ls arbitrary: k) (simp_all add: fst_emit_request_Cons del: emit_request.simps(2))

lemma emit_request_first_mock:
  assumes "lifecycle k = INSPECTING" and "outcome k = None"
    and "\<forall>l \<in> set earlier. responds (l k) = []"
    and "responds (l k) = r # rs"
  shows "fst (emit_request (earlier @ l # later) k) = k\<lparr>outcome := Some (Mocked r)\<rparr>"
proof -
  have "fst (emit_request (earlier @ l # later) k) = fst (emit_request (l # later) k)"
    using assms(3) by (simp add: emit_request_append emit_request_silent)
  also have "\<dots> = fst (emit_request later (react l k))"
    by (rule fst_emit_request_Cons)
  also have "\<dots> = react l k"
    using assms by (intro emit_request_settled) (simp add: react_first)
  finally show ?thesis
    using assms by (simp add: react_first)
qed

section \<open>A request from its creation to its end\<close>

lemma request_write_many:
  "lifecycle k = CREATED \<or> lifecycle k = WRITING \<Longrightarrow>
   foldl (\<lambda>k' c. request_write c k') k ws =
     (if ws = [] then k else k\<lparr>buffered := buffered k @ ws, lifecycle := WRITING\<rparr>)"
proof (induction ws arbitrary: k)
  case Nil
  then show ?case by simp
next
  case (Cons c ws)
  have step: "request_write c k = k\<lparr>buffered := buffered k @ [c], lifecycle := WRITING\<rparr>"
    using Cons.prems by (simp add: request_write_def)
  have "lifecycle (request_write c k) = CREATED \<or> lifecycle (request_write c k) = WRITING"
    by (simp add: step)
  from Cons.IH [OF this] show ?case
    by (simp add: step)
qed

lemma request_with_body_fields:
  "lifecycle (request_with_body m u hs ws) = CREATED \<or> lifecycle (request_with_body m u hs ws) = WRITING"
  "buffered (request_with_body m u hs ws) = ws"
  "outcome (request_with_body m u hs ws) = None"
  "emitted (request_with_body m u hs ws) = []"
  "opened (request_with_body m u hs ws) = []"
  "request_method (request_with_body m u hs ws) = m"
  "request_url (request_with_body m u hs ws) = u"
  "request_headers (request_with_body m u hs ws) = hs"
  by (simp_all add: request_with_body_def request_write_many new_request_def)

lemma inspecting_fields:
  "lifecycle (inspecting final k) = INSPECTING"
  "buffered (inspecting final k) = buffered k @ (case final of Some c \<Rightarrow> [c] | None \<Rightarrow> [])"
  "outcome (inspecting final k) = outcome k"
  "emitted (inspecting final k) = emitted k"
  "opened (inspecting final k) = opened k"
  "request_method (inspecting final k) = request_method k"
  "request_url (inspecting final k) = request_url k"
  "request_headers (inspecting final k) = request_headers k"
  by (simp_all add: inspecting_def)

lemma request_end_terminal:
  "lifecycle k = RESPONDED \<or> lifecycle k = ERRORED \<Longrightarrow> request_end final ls transport k = k"
  by (auto simp: request_end_def)

lemma request_write_terminal:
  "lifecycle k = RESPONDED \<or> lifecycle k = ERRORED \<Longrightarrow> request_write c k = k"
  by (auto simp: request_write_def)

lemma request_end_mocked:
  assumes "lifecycle k = CREATED \<or> lifecycle k = WRITING"
    and "fst (emit_request ls (inspecting final k)) = (inspecting final k)\<lparr>outcome := Some (Mocked r)\<rparr>"
  shows "request_end final ls transport k
      = mock_respond r ((inspecting final k)\<lparr>outcome := Some (Mocked r)\<rparr>)"
  using assms by (cases "emit_request ls (inspecting final k)") (auto simp: request_end_def)

lemma request_end_unmocked:
  assumes "lifecycle k = CREATED \<or> lifecycle k = WRITING"
    and "outcome k = None"
    and "fst (emit_request ls (inspecting final k)) = inspecting final k"
  shows "request_end final ls transport k = connect transport (inspecting final k)"
  using assms
  by (cases "emit_request ls (inspecting final k)") (auto simp: request_end_def inspecting_fields)

text \<open>
  C1: take any request, created and written to, that is then ended, and let some
  listener install a mock during the inspection: the listeners before it install
  nothing, and it calls the mock-setting operation, first with the descriptor \<open>r\<close>.
  Then the real transport is never opened, the one event emitted is the response
  \<open>r\<close> itself (its status, headers and body are the descriptor's), no error event is
  emitted, and the request is in the terminal state RESPONDED, where ending it again,
  writing to it or answering it again changes nothing.
\<close>

theorem mocked_request_never_opens_transport:
  assumes "\<forall>l \<in> set earlier. responds (l (inspecting final (request_with_body m u hs ws))) = []"
    and "responds (l (inspecting final (request_with_body m u hs ws))) = r # rs"
    and "ended = request_end final (earlier @ l # later) transport (request_with_body m u hs ws)"
  shows "opened ended = []
     \<and> emitted ended = [ResponseEvent r]
     \<and> lifecycle ended = RESPONDED
     \<and> request_end final' listeners' transport' ended = ended
     \<and> request_write c ended = ended
     \<and> respondWith r' ended = ended"
proof -
  let ?k = "request_with_body m u hs ws"
  let ?i = "inspecting final ?k"
  have "fst (emit_request (earlier @ l # later) ?i) = ?i\<lparr>outcome := Some (Mocked r)\<rparr>"
    using assms(1,2)
    by (intro emit_request_first_mock) (simp_all add: inspecting_fields request_with_body_fields)
  then have "ended = mock_respond r (?i\<lparr>outcome := Some (Mocked r)\<rparr>)"
    unfolding assms(3) by (intro request_end_mocked) (rule request_with_body_fields)
  then have fields: "opened ended = []" "emitted ended = [ResponseEvent r]" "lifecycle ended = RESPONDED"
    by (simp_all add: mock_respond_def inspecting_fields request_with_body_fields)
  from fields(3) have "request_end final' listeners' transport' ended = ended"
    by (simp add: request_end_terminal)
  moreover from fields(3) have "request_write c ended = ended"
    by (simp add: request_write_terminal)
  moreover from fields(3) have "respondWith r' ended = ended"
    by (simp add: respondWith_outside)
  ultimately show ?thesis
    using fields by simp
qed

text \<open>
  The test \<^emph>\<open>does not send request body to the original server given mocked response\<close>:
  a POST request is written \<^verbatim>\<open>one\<close> and \<^verbatim>\<open>two\<close> and ended; the one listener answers
  with status 301 and the body \<^verbatim>\<open>mock created!\<close>; the transport here would fail.
\<close>

theorem mocked_request_never_opens_transport_witness:
  "opened (request_end None
       [\<lambda>k. \<lparr>responds = [\<lparr>status = 301, statusText = None, headers = [], body = [''mock created!'']\<rparr>],
             faulted = False\<rparr>]
       (\<lambda>call. TransportError \<lparr>kind = DnsNotFound, syscall = Some ''getaddrinfo'',
             address = None, error_port = None\<rparr>)
       (request_with_body ''POST'' \<lparr>href = ''http://localhost/write'', url_protocol = ''http:''\<rparr> []
          [''one'', ''two''])) = []
   \<and> emitted (request_end None
       [\<lambda>k. \<lparr>responds = [\<lparr>status = 301, statusText = None, headers = [], body = [''mock created!'']\<rparr>],
             faulted = False\<rparr>]
       (\<lambda>call. TransportError \<lparr>kind = DnsNotFound, syscall = Some ''getaddrinfo'',
             address = None, error_port = None\<rparr>)
       (request_with_body ''POST'' \<lparr>href = ''http://localhost/write'', url_protocol = ''http:''\<rparr> []
          [''one'', ''two'']))
     = [ResponseEvent \<lparr>status = 301, statusText = None, headers = [], body = [''mock created!'']\<rparr>]"
proof -
  let ?r = "\<lparr>status = 301, statusText = None, headers = [], body = [''mock created!'']\<rparr>"
  let ?l = "\<lambda>k::controller. \<lparr>responds = [?r], faulted = False\<rparr>"
  let ?t = "\<lambda>call::transport_call. TransportError \<lparr>kind = DnsNotFound,
      syscall = Some ''getaddrinfo'', address = None, error_port = None\<rparr>"
  let ?k = "request_with_body ''POST'' \<lparr>href = ''http://localhost/write'', url_protocol = ''http:''\<rparr> []
      [''one'', ''two'']"
  have none_before: "\<forall>l \<in> set []. responds (l (inspecting None ?k)) = []"
    by simp
  have installs: "responds (?l (inspecting None ?k)) = ?r # []"
    by simp
  from mocked_request_never_opens_transport [OF none_before installs, of _ "[]" ?t]
  show ?thesis by simp
qed

text \<open>
  C7: take any request, created and written to, that is then ended, with or without a
  final chunk, and let no listener install a mock. Then the real transport is opened
  once, with the request's URL, method and headers and with the chunks written, in the
  order written, the final chunk last; the body the transport receives is their
  concatenation.
\<close>

theorem unmocked_request_replays_body_in_order:
  assumes "\<forall>l \<in> set listeners. responds (l (inspecting final (request_with_body m u hs ws))) = []"
  shows "opened (request_end final listeners transport (request_with_body m u hs ws))
       = [\<lparr>call_url = u, call_method = m, call_headers = hs,
           call_body = ws @ (case final of Some c \<Rightarrow> [c] | None \<Rightarrow> [])\<rparr>]
     \<and> concat (concat (map call_body
          (opened (request_end final listeners transport (request_with_body m u hs ws)))))
       = concat ws @ (case final of Some c \<Rightarrow> c | None \<Rightarrow> [])"
proof -
  let ?k = "request_with_body m u hs ws"
  have "fst (emit_request listeners (inspecting final ?k)) = inspecting final ?k"
    using assms by (rule emit_request_silent)
  then have "request_end final listeners transport ?k = connect transport (inspecting final ?k)"
    by (intro request_end_unmocked) (simp_all add: request_with_body_fields)
  then have "opened (request_end final listeners transport ?k)
       = [\<lparr>call_url = u, call_method = m, call_headers = hs,
           call_body = ws @ (case final of Some c \<Rightarrow> [c] | None \<Rightarrow> [])\<rparr>]"
    by (simp add: connect_def Let_def inspecting_fields request_with_body_fields
        split: transport_result.splits)
  then show ?thesis
    by (simp split: option.splits)
qed

text \<open>
  The test \<^emph>\<open>sends the request body to the server given no mocked response\<close>: no
  listener, \<^verbatim>\<open>one\<close> and \<^verbatim>\<open>two\<close> written, ended with \<^verbatim>\<open>three\<close>; the transport
  receives \<^verbatim>\<open>onetwothree\<close>.
\<close>

theorem unmocked_request_replays_body_in_order_witness:
  "map call_body (opened (request_end (Some ''three'') []
       (\<lambda>call. TransportResponse \<lparr>status = 200, statusText = Some ''OK'', headers = [],
             body = call_body call\<rparr>)
       (request_with_body ''POST'' \<lparr>href = ''http://localhost/write'', url_protocol = ''http:''\<rparr>
          [(''Content-Type'', ''text/plain'')] [''one'', ''two''])))
     = [[''one'', ''two'', ''three'']]
   \<and> concat (concat (map call_body (opened (request_end (Some ''three'') []
       (\<lambda>call. TransportResponse \<lparr>status = 200, statusText = Some ''OK'', headers = [],
             body = call_body call\<rparr>)
       (request_with_body ''POST'' \<lparr>href = ''http://localhost/write'', url_protocol = ''http:''\<rparr>
          [(''Content-Type'', ''text/plain'')] [''one'', ''two'']))))) = ''onetwothree''"
proof -
  let ?t = "\<lambda>call. TransportResponse \<lparr>status = 200, statusText = Some ''OK'', headers = [],
             body = call_body call\<rparr>"
  let ?k = "request_with_body ''POST'' \<lparr>href = ''http://localhost/write'', url_protocol = ''http:''\<rparr>
          [(''Content-Type'', ''text/plain'')] [''one'', ''two'']"
  have silent: "\<forall>l \<in> set []. responds (l (inspecting (Some ''three'') ?k)) = []"
    by simp
  from unmocked_request_replays_body_in_order [OF silent, of ?t]
  show ?thesis by simp
qed

section \<open>The events of a request\<close>










end
